theory Spec2Isabelle
  imports Complex_Main "HOL-Library.Word"
begin

section \<open>Data model\<close>

text \<open>
  The endpoints of \<^verbatim>\<open>app/api/v1/meetings.py\<close> and \<^verbatim>\<open>app/api/v1/milestones.py\<close>
  are request handlers over a relational store. A handler is modelled as a function from
  its request (path parameters, payload, current user), the values it reads from its
  environment (clock readings, the random token, the identifier the store assigns) and
  the committed store, to an outcome and the committed store afterwards. A handler that
  raises before \<^verbatim>\<open>db.commit()\<close> leaves the committed store as it was: changes made
  to objects of the session are lost with the session.

  A \<^verbatim>\<open>datetime\<close> is naive (no \<^verbatim>\<open>tzinfo\<close>) or aware, and carries a count of
  microseconds (the resolution of Python's type): the wall-clock reading of a naive
  value, the UTC instant of an aware one. Comparing a naive value with an aware one
  raises \<^verbatim>\<open>TypeError\<close>. A \<^verbatim>\<open>UUID\<close> is a 128-bit word. The ORM classes of
  \<^verbatim>\<open>app.models.all_models\<close> are not part of the sources at hand: each is a record of
  the attributes the handlers read and write. Field names carry a prefix where two
  classes share an attribute name.
\<close>

type_synonym uuid = "128 word"
type_synonym instant = int

datatype datetime = Naive int | Aware int

fun dt_value :: "datetime \<Rightarrow> int" where
  "dt_value (Naive t) = t"
| "dt_value (Aware t) = t"

fun tz_aware :: "datetime \<Rightarrow> bool" where
  \<comment> \<open>\<^verbatim>\<open>tzinfo is not None\<close>\<close>
  "tz_aware (Naive t) = False"
| "tz_aware (Aware t) = True"

definition minutes :: "int \<Rightarrow> int" where
  \<comment> \<open>\<^verbatim>\<open>timedelta(minutes=n)\<close>, in microseconds\<close>
  "minutes n = n * 60000000"

fun minus_timedelta :: "datetime \<Rightarrow> int \<Rightarrow> datetime" where
  \<comment> \<open>\<^verbatim>\<open>dt - timedelta\<close> keeps the \<^verbatim>\<open>tzinfo\<close> of \<^verbatim>\<open>dt\<close>\<close>
  "minus_timedelta (Naive t) delta = Naive (t - delta)"
| "minus_timedelta (Aware t) delta = Aware (t - delta)"

fun naive_as_utc :: "datetime \<Rightarrow> datetime" where
  \<comment> \<open>\<^verbatim>\<open>if dt.tzinfo is None: dt = dt.replace(tzinfo=timezone.utc)\<close>\<close>
  "naive_as_utc (Naive t) = Aware t"
| "naive_as_utc (Aware t) = Aware t"

datatype error =
    HTTPException nat string
  | AttributeError string
  | MultipleResultsFound
  | TypeError
  | ValueError string
  | ModelValidationError

fun status_code :: "error \<Rightarrow> nat" where
  \<comment> \<open>an exception that is not an \<^verbatim>\<open>HTTPException\<close> surfaces as 500, except the
      \<^verbatim>\<open>ValueError\<close> of a schema validator, which rejects the request with 422\<close>
  "status_code (HTTPException c d) = c"
| "status_code (AttributeError a) = 500"
| "status_code MultipleResultsFound = 500"
| "status_code TypeError = 500"
| "status_code (ValueError m) = 422"
| "status_code ModelValidationError = 500"

fun dt_le :: "datetime \<Rightarrow> datetime \<Rightarrow> error + bool" where
  \<comment> \<open>\<^verbatim>\<open>a <= b\<close> on datetimes\<close>
  "dt_le (Naive a) (Naive b) = Inr (a \<le> b)"
| "dt_le (Aware a) (Aware b) = Inr (a \<le> b)"
| "dt_le (Naive a) (Aware b) = Inl TypeError"
| "dt_le (Aware a) (Naive b) = Inl TypeError"

text \<open>The error taxonomy: 404 is NotFound, 403 is Forbidden, 400 is ValidationError.\<close>

definition NotFound :: "error \<Rightarrow> bool" where
  "NotFound e = (status_code e = 404)"

definition Forbidden :: "error \<Rightarrow> bool" where
  "Forbidden e = (status_code e = 403)"

definition ValidationError :: "error \<Rightarrow> bool" where
  "ValidationError e = (status_code e = 400)"

record User =
  user_id :: uuid
  role_id :: int

record Team =
  t_team_id :: int
  t_class_id :: int

record TeamMember =
  tm_team_id :: int
  tm_user_id :: uuid
  tm_role :: string

record Meeting =
  meeting_id :: int
  m_team_id :: int
  m_title :: "string option"
  m_start_time :: "datetime option"
  m_end_time :: "datetime option"
  link_url :: "string option"
  organizer_id :: uuid
  m_created_at :: datetime

record Notification =
  n_user_id :: uuid
  n_title :: string
  n_message :: "string \<times> datetime"
    \<comment> \<open>the two values interpolated into the message text: the title and the start time\<close>
  notification_type :: string
  related_entity_type :: string
  related_entity_id :: int

record AcademicClass =
  ac_class_id :: int
  lecturer_id :: uuid

record Milestone =
  milestone_id :: int
  ms_class_id :: int
  ms_title :: "string option"
  ms_description :: "string option"
  ms_due_date :: datetime
  ms_weight :: "real option"
    \<comment> \<open>\<open>None\<close>: never assigned by a handler (the column's own default applies)\<close>
  created_by :: uuid

record Checkpoint =
  checkpoint_id :: int
  cp_milestone_id :: int
  cp_team_id :: int
  cp_title :: "string option"
  cp_status :: "string option"

record db =
  teams :: "Team list"
  team_members :: "TeamMember list"
  meetings :: "Meeting list"
  notifications :: "Notification list"
  classes :: "AcademicClass list"
  milestones :: "Milestone list"
  checkpoints :: "Checkpoint list"

subsection \<open>Query results\<close>

definition scalar :: "'a list \<Rightarrow> 'a option" where
  \<comment> \<open>\<^verbatim>\<open>Result.scalar()\<close>: the first row, or \<^verbatim>\<open>None\<close>\<close>
  "scalar rows = (case rows of [] \<Rightarrow> None | r # _ \<Rightarrow> Some r)"

definition scalar_one_or_none :: "'a list \<Rightarrow> error + 'a option" where
  \<comment> \<open>\<^verbatim>\<open>Result.scalar_one_or_none()\<close>: raises when more than one row matches\<close>
  "scalar_one_or_none rows =
     (case rows of [] \<Rightarrow> Inr None | [r] \<Rightarrow> Inr (Some r) | _ \<Rightarrow> Inl MultipleResultsFound)"

section \<open>Meetings\<close>

subsection \<open>Schemas (\<^verbatim>\<open>app/schemas/meeting.py\<close>)\<close>

record MeetingCreate =
  mc_team_id :: int
  mc_title :: string
  mc_start_time :: datetime
  mc_end_time :: datetime
  mc_meeting_link :: "string option"

record MeetingUpdate =
  mu_title :: "string option"
  mu_start_time :: "datetime option"
  mu_end_time :: "datetime option"
  mu_meeting_link :: "string option"

record MeetingResponse =
  r_meeting_id :: int
  r_team_id :: int
  r_title :: "string option"
  r_start_time :: "datetime option"
  r_end_time :: "datetime option"
  r_meeting_link :: "string option"
  r_created_by :: uuid
  r_created_at :: datetime

text \<open>
  The field validators receive the end time and read the start time from the fields
  validated so far (\<^verbatim>\<open>info.data.get("start_time")\<close>, \<open>None\<close> when there is none).
  They return the end time or raise.
\<close>

definition validate_end_time :: "datetime option \<Rightarrow> datetime \<Rightarrow> error + datetime" where
  \<comment> \<open>\<^verbatim>\<open>if start_time and end_time <= start_time: raise ValueError(...)\<close>\<close>
  "validate_end_time start_time end_time =
     (case start_time of
        None \<Rightarrow> Inr end_time
      | Some s \<Rightarrow>
          (case dt_le end_time s of
             Inl e \<Rightarrow> Inl e
           | Inr True \<Rightarrow> Inl (ValueError ''end_time must be greater than start_time'')
           | Inr False \<Rightarrow> Inr end_time))"

definition validate_end_time_update ::
  "datetime option \<Rightarrow> datetime option \<Rightarrow> error + datetime option" where
  \<comment> \<open>\<^verbatim>\<open>if start_time and end_time and end_time <= start_time: raise ValueError(...)\<close>\<close>
  "validate_end_time_update start_time end_time =
     (case (start_time, end_time) of
        (Some s, Some e) \<Rightarrow>
          (case dt_le e s of
             Inl err \<Rightarrow> Inl err
           | Inr True \<Rightarrow> Inl (ValueError ''end_time must be greater than start_time'')
           | Inr False \<Rightarrow> Inr end_time)
      | _ \<Rightarrow> Inr end_time)"

subsection \<open>Helpers\<close>

definition require_team_exists :: "db \<Rightarrow> int \<Rightarrow> error + Team" where
  "require_team_exists d team_id =
     (case scalar (filter (\<lambda>t. t_team_id t = team_id) (teams d)) of
        None \<Rightarrow> Inl (HTTPException 404 ''Team not found'')
      | Some team \<Rightarrow> Inr team)"

definition require_team_member :: "db \<Rightarrow> int \<Rightarrow> uuid \<Rightarrow> error + TeamMember" where
  "require_team_member d team_id uid =
     (case scalar (filter (\<lambda>tm. tm_team_id tm = team_id \<and> tm_user_id tm = uid) (team_members d)) of
        None \<Rightarrow> Inl (HTTPException 403 ''You are not a member of this team'')
      | Some tm \<Rightarrow> Inr tm)"

definition select_meeting :: "db \<Rightarrow> int \<Rightarrow> Meeting option" where
  \<comment> \<open>\<^verbatim>\<open>select(Meeting).where(Meeting.meeting_id == meeting_id)\<close>, read with \<^verbatim>\<open>scalar()\<close>\<close>
  "select_meeting d mid = scalar (filter (\<lambda>m. meeting_id m = mid) (meetings d))"

definition to_response :: "Meeting \<Rightarrow> MeetingResponse" where
  "to_response meeting =
     \<lparr> r_meeting_id = meeting_id meeting,
       r_team_id = m_team_id meeting,
       r_title = m_title meeting,
       r_start_time = m_start_time meeting,
       r_end_time = m_end_time meeting,
       r_meeting_link = link_url meeting,
       r_created_by = organizer_id meeting,
       r_created_at = m_created_at meeting \<rparr>"

definition truthy :: "string option \<Rightarrow> bool" where
  \<comment> \<open>Python truth of an optional string: \<^verbatim>\<open>None\<close> and \<^verbatim>\<open>""\<close> are false\<close>
  "truthy s = (case s of None \<Rightarrow> False | Some v \<Rightarrow> v \<noteq> [])"

definition save_meeting :: "Meeting \<Rightarrow> db \<Rightarrow> db" where
  \<comment> \<open>commit of a modified \<^verbatim>\<open>Meeting\<close>: the row with its primary key is rewritten\<close>
  "save_meeting meeting d =
     d\<lparr>meetings := map (\<lambda>r. if meeting_id r = meeting_id meeting then meeting else r) (meetings d)\<rparr>"

subsection \<open>Endpoints\<close>

text \<open>
  \<^verbatim>\<open>create_meeting\<close> reads \<^verbatim>\<open>now_utc()\<close> twice (\<open>created\<close> for
  \<^verbatim>\<open>created_at\<close>, then \<open>now\<close> for the reminder test; both are UTC instants and the
  reminder time is aware when it is compared), draws one token \<open>tok\<close> from
  \<^verbatim>\<open>gen_peer_room_id\<close> when the payload has no link, and receives the identifier
  \<open>new_id\<close> from the store at \<^verbatim>\<open>db.flush()\<close>.
\<close>

definition create_meeting ::
  "MeetingCreate \<Rightarrow> User \<Rightarrow> string \<Rightarrow> int \<Rightarrow> instant \<Rightarrow> instant \<Rightarrow> db
     \<Rightarrow> (error + MeetingResponse) \<times> db" where
  "create_meeting payload current_user tok new_id created now d =
     (case require_team_exists d (mc_team_id payload) of
        Inl e \<Rightarrow> (Inl e, d)
      | Inr team \<Rightarrow>
     (case require_team_member d (mc_team_id payload) (user_id current_user) of
        Inl e \<Rightarrow> (Inl e, d)
      | Inr tm \<Rightarrow>
        let link = (if truthy (mc_meeting_link payload) then mc_meeting_link payload else Some tok);
            meeting = \<lparr> meeting_id = new_id,
                        m_team_id = mc_team_id payload,
                        m_title = Some (mc_title payload),
                        m_start_time = Some (mc_start_time payload),
                        m_end_time = Some (mc_end_time payload),
                        link_url = link,
                        organizer_id = user_id current_user,
                        m_created_at = Aware created \<rparr>;
            remind_at = naive_as_utc (minus_timedelta (mc_start_time payload) (minutes 15));
            members = (if dt_value remind_at > now
                       then filter (\<lambda>m. tm_team_id m = mc_team_id payload) (team_members d)
                       else []);
            reminders = map (\<lambda>m. \<lparr> n_user_id = tm_user_id m,
                                    n_title = ''Meeting reminder'',
                                    n_message = (mc_title payload, mc_start_time payload),
                                    notification_type = ''info'',
                                    related_entity_type = ''meeting'',
                                    related_entity_id = meeting_id meeting \<rparr>) members
        in (Inr (to_response meeting),
            d\<lparr>meetings := meetings d @ [meeting],
              notifications := notifications d @ reminders\<rparr>)))"

definition apply_update :: "MeetingUpdate \<Rightarrow> Meeting \<Rightarrow> Meeting" where
  \<comment> \<open>the four assignments of \<^verbatim>\<open>update_meeting\<close>, each under its \<^verbatim>\<open>is not None\<close> test\<close>
  "apply_update payload meeting =
     (let m1 = (case mu_title payload of None \<Rightarrow> meeting | Some v \<Rightarrow> meeting\<lparr>m_title := Some v\<rparr>);
          m2 = (case mu_start_time payload of None \<Rightarrow> m1 | Some v \<Rightarrow> m1\<lparr>m_start_time := Some v\<rparr>);
          m3 = (case mu_end_time payload of None \<Rightarrow> m2 | Some v \<Rightarrow> m2\<lparr>m_end_time := Some v\<rparr>);
          m4 = (case mu_meeting_link payload of None \<Rightarrow> m3 | Some v \<Rightarrow> m3\<lparr>link_url := Some v\<rparr>)
      in m4)"

definition end_not_after_start :: "Meeting \<Rightarrow> error + bool" where
  \<comment> \<open>\<^verbatim>\<open>meeting.start_time and meeting.end_time and meeting.end_time <= meeting.start_time\<close>;
      the comparison raises for a naive and an aware value\<close>
  "end_not_after_start meeting =
     (case (m_start_time meeting, m_end_time meeting) of
        (Some s, Some e) \<Rightarrow> dt_le e s
      | _ \<Rightarrow> Inr False)"

definition may_mutate :: "User \<Rightarrow> TeamMember \<Rightarrow> Meeting \<Rightarrow> bool" where
  \<comment> \<open>\<^verbatim>\<open>is_privileged or is_leader or is_organizer\<close>\<close>
  "may_mutate current_user tm meeting =
     (let is_privileged = (role_id current_user \<in> set [1, 4]);
          is_leader = (tm_role tm = ''LEADER'');
          is_organizer = (organizer_id meeting = user_id current_user)
      in is_privileged \<or> is_leader \<or> is_organizer)"

definition update_meeting ::
  "int \<Rightarrow> MeetingUpdate \<Rightarrow> User \<Rightarrow> db \<Rightarrow> (error + MeetingResponse) \<times> db" where
  "update_meeting mid payload current_user d =
     (case select_meeting d mid of
        None \<Rightarrow> (Inl (HTTPException 404 ''Meeting not found''), d)
      | Some meeting \<Rightarrow>
     (case require_team_member d (m_team_id meeting) (user_id current_user) of
        Inl e \<Rightarrow> (Inl e, d)
      | Inr tm \<Rightarrow>
        if \<not> may_mutate current_user tm meeting
        then (Inl (HTTPException 403 ''Not allowed to update this meeting''), d)
        else let meeting' = apply_update payload meeting
             in (case end_not_after_start meeting' of
                   Inl e \<Rightarrow> (Inl e, d)
                 | Inr True \<Rightarrow>
                     (Inl (HTTPException 400 ''end_time must be greater than start_time''), d)
                 | Inr False \<Rightarrow> (Inr (to_response meeting'), save_meeting meeting' d))))"

definition cancel_meeting :: "int \<Rightarrow> User \<Rightarrow> db \<Rightarrow> (error + int) \<times> db" where
  \<comment> \<open>the response carries the fixed message and the meeting identifier; the latter is kept\<close>
  "cancel_meeting mid current_user d =
     (case select_meeting d mid of
        None \<Rightarrow> (Inl (HTTPException 404 ''Meeting not found''), d)
      | Some meeting \<Rightarrow>
     (case require_team_member d (m_team_id meeting) (user_id current_user) of
        Inl e \<Rightarrow> (Inl e, d)
      | Inr tm \<Rightarrow>
        if \<not> may_mutate current_user tm meeting
        then (Inl (HTTPException 403 ''Not allowed to cancel this meeting''), d)
        else (Inr mid,
              d\<lparr>meetings := filter (\<lambda>r. meeting_id r \<noteq> meeting_id meeting) (meetings d)\<rparr>)))"

record JoinResponse =
  j_meeting_id :: int
  j_team_id :: int
  peer_room_id :: "string option"

definition join_meeting :: "int \<Rightarrow> User \<Rightarrow> string \<Rightarrow> db \<Rightarrow> (error + JoinResponse) \<times> db" where
  "join_meeting mid current_user tok d =
     (case select_meeting d mid of
        None \<Rightarrow> (Inl (HTTPException 404 ''Meeting not found''), d)
      | Some meeting \<Rightarrow>
     (case require_team_member d (m_team_id meeting) (user_id current_user) of
        Inl e \<Rightarrow> (Inl e, d)
      | Inr tm \<Rightarrow>
        if \<not> truthy (link_url meeting)
        then let meeting' = meeting\<lparr>link_url := Some tok\<rparr>
             in (Inr \<lparr> j_meeting_id = mid, j_team_id = m_team_id meeting',
                       peer_room_id = link_url meeting' \<rparr>,
                 save_meeting meeting' d)
        else (Inr \<lparr> j_meeting_id = mid, j_team_id = m_team_id meeting,
                    peer_room_id = link_url meeting \<rparr>, d)))"

section \<open>Milestones and checkpoints\<close>

subsection \<open>Schemas (\<^verbatim>\<open>app/schemas/milestone.py\<close>)\<close>

text \<open>
  A field of an update schema that \<^verbatim>\<open>model_dump(exclude_unset=True)\<close> may leave out
  has one more \<open>option\<close>: \<open>None\<close> is a field the request did not set, \<open>Some None\<close>
  a field set to \<^verbatim>\<open>null\<close>. The same reading gives the default of a create schema:
  \<^verbatim>\<open>Field(1.0, ...)\<close> and \<^verbatim>\<open>Field("pending", ...)\<close> fill a field that is not set.
\<close>

definition weight_field :: "real option \<Rightarrow> real" where
  \<comment> \<open>\<^verbatim>\<open>weight: float = Field(1.0, ge=0, le=1)\<close>\<close>
  "weight_field supplied = (case supplied of None \<Rightarrow> 1.0 | Some w \<Rightarrow> w)"

definition status_field :: "string option option \<Rightarrow> string option" where
  \<comment> \<open>\<^verbatim>\<open>status: Optional[str] = Field("pending")\<close>\<close>
  "status_field supplied = (case supplied of None \<Rightarrow> Some ''pending'' | Some s \<Rightarrow> s)"

record MilestoneCreate =
  mlc_class_id :: int
  mlc_title :: string
  mlc_description :: "string option"
  mlc_due_date :: datetime
  mlc_weight :: real

record MilestoneUpdate =
  mlu_title :: "string option option"
  mlu_description :: "string option option"
  mlu_due_date :: "datetime option option"
  mlu_weight :: "real option option"

record CheckpointCreate =
  cc_milestone_id :: int
  cc_team_id :: int
  cc_title :: string
  cc_status :: "string option"

record MilestoneListResponse =
  lr_milestone_id :: int
  lr_class_id :: int
  lr_title :: string
  lr_due_date :: datetime
  lr_created_by :: uuid
  checkpoint_count :: nat

subsection \<open>Milestone endpoints\<close>

text \<open>
  \<^verbatim>\<open>create_milestone\<close> builds the row from five attributes; what the row holds for
  an attribute the constructor is not given is decided by the declaration of the column,
  which is taken as the parameter \<open>weight_default\<close>. \<open>now\<close> is the count of
  microseconds of \<^verbatim>\<open>datetime.now(due_date.tzinfo)\<close>, a value of the kind of the due
  date it is compared with; \<open>new_id\<close> is the identifier assigned by the store.
\<close>

definition select_class :: "db \<Rightarrow> int \<Rightarrow> error + AcademicClass option" where
  \<comment> \<open>\<^verbatim>\<open>select(AcademicClass).where(AcademicClass.class_id == class_id)\<close>\<close>
  "select_class d cid = scalar_one_or_none (filter (\<lambda>c. ac_class_id c = cid) (classes d))"

definition select_team :: "db \<Rightarrow> int \<Rightarrow> error + Team option" where
  \<comment> \<open>\<^verbatim>\<open>select(Team).where(Team.team_id == team_id)\<close>\<close>
  "select_team d tid = scalar_one_or_none (filter (\<lambda>t. t_team_id t = tid) (teams d))"

definition create_milestone ::
  "MilestoneCreate \<Rightarrow> User \<Rightarrow> real option \<Rightarrow> int \<Rightarrow> instant \<Rightarrow> db
     \<Rightarrow> (error + Milestone) \<times> db" where
  "create_milestone milestone_data current_user weight_default new_id now d =
     (case select_class d (mlc_class_id milestone_data) of
        Inl e \<Rightarrow> (Inl e, d)
      | Inr None \<Rightarrow> (Inl (HTTPException 404 ''Class not found''), d)
      | Inr (Some academic_class) \<Rightarrow>
          if lecturer_id academic_class \<noteq> user_id current_user
          then (Inl (HTTPException 403 ''Only the class lecturer can create milestones''), d)
          else if dt_value (mlc_due_date milestone_data) \<le> now
          then (Inl (HTTPException 400 ''Due date must be in the future''), d)
          else let new_milestone =
                     \<lparr> milestone_id = new_id,
                       ms_class_id = mlc_class_id milestone_data,
                       ms_title = Some (mlc_title milestone_data),
                       ms_description = mlc_description milestone_data,
                       ms_due_date = mlc_due_date milestone_data,
                       ms_weight = weight_default,
                       created_by = user_id current_user \<rparr>
               in (Inr new_milestone, d\<lparr>milestones := milestones d @ [new_milestone]\<rparr>))"

definition select_milestone :: "db \<Rightarrow> int \<Rightarrow> error + Milestone option" where
  \<comment> \<open>\<^verbatim>\<open>select(Milestone).where(Milestone.milestone_id == milestone_id)\<close>, read with
      \<^verbatim>\<open>scalar_one_or_none()\<close>\<close>
  "select_milestone d mid =
     scalar_one_or_none (filter (\<lambda>m. milestone_id m = mid) (milestones d))"

definition truthy_id :: "int option \<Rightarrow> bool" where
  \<comment> \<open>Python truth of an optional integer: \<^verbatim>\<open>None\<close> and \<^verbatim>\<open>0\<close> are false\<close>
  "truthy_id i = (case i of None \<Rightarrow> False | Some v \<Rightarrow> v \<noteq> 0)"

text \<open>
  \<^verbatim>\<open>order_by\<close> is a stable sort on the key: the order the store gives to rows of
  equal key is left as the order of the table. The loop of \<^verbatim>\<open>list_milestones\<close>
  builds one \<^verbatim>\<open>MilestoneListResponse\<close> for each row of the page; the schema wants a
  string for the title, so the construction raises at a row whose title is null.
\<close>

definition list_entry :: "db \<Rightarrow> Milestone \<Rightarrow> error + MilestoneListResponse" where
  "list_entry d milestone =
     (case ms_title milestone of
        None \<Rightarrow> Inl ModelValidationError
      | Some title \<Rightarrow>
          Inr \<lparr> lr_milestone_id = milestone_id milestone,
                lr_class_id = ms_class_id milestone,
                lr_title = title,
                lr_due_date = ms_due_date milestone,
                lr_created_by = created_by milestone,
                checkpoint_count =
                  length (filter (\<lambda>c. cp_milestone_id c = milestone_id milestone)
                                 (checkpoints d)) \<rparr>)"

fun append_each :: "('a \<Rightarrow> error + 'b) \<Rightarrow> 'a list \<Rightarrow> error + 'b list" where
  \<comment> \<open>a \<^verbatim>\<open>for\<close> loop that appends one built value for each row and stops at a raise\<close>
  "append_each build [] = Inr []"
| "append_each build (row # rows) =
     (case build row of
        Inl e \<Rightarrow> Inl e
      | Inr v \<Rightarrow> (case append_each build rows of Inl e \<Rightarrow> Inl e | Inr vs \<Rightarrow> Inr (v # vs)))"

definition milestone_page :: "int option \<Rightarrow> nat \<Rightarrow> nat \<Rightarrow> db \<Rightarrow> Milestone list" where
  \<comment> \<open>the query of \<^verbatim>\<open>list_milestones\<close>: optional filter, order, offset, limit\<close>
  "milestone_page class_id skip limit d =
     (let query = (if truthy_id class_id
                   then filter (\<lambda>m. Some (ms_class_id m) = class_id) (milestones d)
                   else milestones d)
      in take limit (drop skip (sort_key (\<lambda>m. dt_value (ms_due_date m)) query)))"

definition list_milestones ::
  "int option \<Rightarrow> nat \<Rightarrow> nat \<Rightarrow> db \<Rightarrow> error + MilestoneListResponse list" where
  "list_milestones class_id skip limit d =
     append_each (list_entry d) (milestone_page class_id skip limit d)"

definition setattrs :: "MilestoneUpdate \<Rightarrow> Milestone \<Rightarrow> Milestone" where
  \<comment> \<open>the \<^verbatim>\<open>setattr\<close> loop over the fields that were set; a due date reaches it
      only as a value, the \<^verbatim>\<open>null\<close> case having raised before\<close>
  "setattrs upd milestone =
     (let m1 = (case mlu_title upd of None \<Rightarrow> milestone | Some v \<Rightarrow> milestone\<lparr>ms_title := v\<rparr>);
          m2 = (case mlu_description upd of None \<Rightarrow> m1 | Some v \<Rightarrow> m1\<lparr>ms_description := v\<rparr>);
          m3 = (case mlu_due_date upd of Some (Some v) \<Rightarrow> m2\<lparr>ms_due_date := v\<rparr> | _ \<Rightarrow> m2);
          m4 = (case mlu_weight upd of None \<Rightarrow> m3 | Some v \<Rightarrow> m3\<lparr>ms_weight := v\<rparr>)
      in m4)"

definition save_milestone :: "Milestone \<Rightarrow> db \<Rightarrow> db" where
  "save_milestone milestone d =
     d\<lparr>milestones :=
         map (\<lambda>r. if milestone_id r = milestone_id milestone then milestone else r) (milestones d)\<rparr>"

definition update_milestone ::
  "int \<Rightarrow> MilestoneUpdate \<Rightarrow> User \<Rightarrow> instant \<Rightarrow> db \<Rightarrow> (error + Milestone) \<times> db" where
  "update_milestone mid milestone_update current_user now d =
     (case select_milestone d mid of
        Inl e \<Rightarrow> (Inl e, d)
      | Inr None \<Rightarrow> (Inl (HTTPException 404 ''Milestone not found''), d)
      | Inr (Some milestone) \<Rightarrow>
          if created_by milestone \<noteq> user_id current_user
          then (Inl (HTTPException 403 ''Only the creating lecturer can update this milestone''), d)
          else (case mlu_due_date milestone_update of
                  Some None \<Rightarrow> (Inl (AttributeError ''tzinfo''), d)
                | due \<Rightarrow>
                    if (case due of Some (Some v) \<Rightarrow> dt_value v \<le> now | _ \<Rightarrow> False)
                    then (Inl (HTTPException 400 ''Due date must be in the future''), d)
                    else let milestone' = setattrs milestone_update milestone
                         in (Inr milestone', save_milestone milestone' d)))"

definition delete_milestone :: "int \<Rightarrow> User \<Rightarrow> db \<Rightarrow> (error + unit) \<times> db" where
  \<comment> \<open>the delete takes the milestone's checkpoints with it, as the docstring states\<close>
  "delete_milestone mid current_user d =
     (case select_milestone d mid of
        Inl e \<Rightarrow> (Inl e, d)
      | Inr None \<Rightarrow> (Inl (HTTPException 404 ''Milestone not found''), d)
      | Inr (Some milestone) \<Rightarrow>
          if created_by milestone \<noteq> user_id current_user
          then (Inl (HTTPException 403 ''Only the creating lecturer can delete this milestone''), d)
          else (Inr (),
                d\<lparr>milestones := filter (\<lambda>r. milestone_id r \<noteq> milestone_id milestone) (milestones d),
                  checkpoints := filter (\<lambda>c. cp_milestone_id c \<noteq> milestone_id milestone)
                                        (checkpoints d)\<rparr>))"

subsection \<open>Checkpoint endpoints\<close>

definition academic_class_of :: "db \<Rightarrow> Milestone \<Rightarrow> AcademicClass option" where
  \<comment> \<open>the relationship \<^verbatim>\<open>Milestone.academic_class\<close>, loaded with the milestone\<close>
  "academic_class_of d milestone =
     scalar (filter (\<lambda>c. ac_class_id c = ms_class_id milestone) (classes d))"

definition create_checkpoint ::
  "int \<Rightarrow> CheckpointCreate \<Rightarrow> User \<Rightarrow> int \<Rightarrow> db \<Rightarrow> (error + Checkpoint) \<times> db" where
  "create_checkpoint mid checkpoint_data current_user new_id d =
     (if cc_milestone_id checkpoint_data \<noteq> mid
      then (Inl (HTTPException 400 ''Milestone ID mismatch''), d)
      else
     (case select_milestone d mid of
        Inl e \<Rightarrow> (Inl e, d)
      | Inr None \<Rightarrow> (Inl (HTTPException 404 ''Milestone not found''), d)
      | Inr (Some milestone) \<Rightarrow>
     (case academic_class_of d milestone of
        None \<Rightarrow> (Inl (AttributeError ''lecturer_id''), d)
      | Some academic_class \<Rightarrow>
          if lecturer_id academic_class \<noteq> user_id current_user
          then (Inl (HTTPException 403 ''Only the class lecturer can create checkpoints''), d)
          else
     (case select_team d (cc_team_id checkpoint_data) of
        Inl e \<Rightarrow> (Inl e, d)
      | Inr None \<Rightarrow> (Inl (HTTPException 404 ''Team not found''), d)
      | Inr (Some team) \<Rightarrow>
          if t_class_id team \<noteq> ms_class_id milestone
          then (Inl (HTTPException 400 ''Team does not belong to this class''), d)
          else let new_checkpoint =
                     \<lparr> checkpoint_id = new_id,
                       cp_milestone_id = mid,
                       cp_team_id = cc_team_id checkpoint_data,
                       cp_title = Some (cc_title checkpoint_data),
                       cp_status = (if truthy (cc_status checkpoint_data)
                                    then cc_status checkpoint_data
                                    else Some ''pending'') \<rparr>
               in (Inr new_checkpoint, d\<lparr>checkpoints := checkpoints d @ [new_checkpoint]\<rparr>)))))"

definition list_checkpoints :: "int \<Rightarrow> int option \<Rightarrow> db \<Rightarrow> error + Checkpoint list" where
  "list_checkpoints mid team_id d =
     (case select_milestone d mid of
        Inl e \<Rightarrow> Inl e
      | Inr None \<Rightarrow> Inl (HTTPException 404 ''Milestone not found'')
      | Inr (Some milestone) \<Rightarrow>
          let query = filter (\<lambda>c. cp_milestone_id c = mid) (checkpoints d);
              query' = (if truthy_id team_id
                        then filter (\<lambda>c. Some (cp_team_id c) = team_id) query
                        else query)
          in Inr (sort_key checkpoint_id query'))"

section \<open>Outcomes and a sample store\<close>

definition failed_with :: "(error \<Rightarrow> bool) \<Rightarrow> error + 'a \<Rightarrow> bool" where
  "failed_with kind outcome = (case outcome of Inl e \<Rightarrow> kind e | Inr v \<Rightarrow> False)"

definition succeeded :: "error + 'a \<Rightarrow> bool" where
  "succeeded outcome = (case outcome of Inl e \<Rightarrow> False | Inr v \<Rightarrow> True)"

text \<open>
  The sample store: team 1 of class 10 with a leader (user 1), a student (user 2) and an
  administrator (user 3) as members; team 2 of class 20; one meeting of team 1 organised
  by user 1; class 10 taught by user 7, class 20 by user 8; one milestone of class 10
  created by user 7. User 9 is an administrator who belongs to no team.
\<close>

definition sample_meeting :: Meeting where
  "sample_meeting =
     \<lparr> meeting_id = 1, m_team_id = 1, m_title = Some ''Sprint review'',
       m_start_time = Some (Aware 1000), m_end_time = Some (Aware 2000),
       link_url = Some ''room'',
       organizer_id = 1, m_created_at = Aware 0 \<rparr>"

definition sample_milestone :: Milestone where
  "sample_milestone =
     \<lparr> milestone_id = 1, ms_class_id = 10, ms_title = Some ''Proposal'',
       ms_description = None, ms_due_date = Aware 5000, ms_weight = None,
       created_by = 7 \<rparr>"

definition sample_db :: db where
  "sample_db =
     \<lparr> teams = [\<lparr>t_team_id = 1, t_class_id = 10\<rparr>, \<lparr>t_team_id = 2, t_class_id = 20\<rparr>],
       team_members =
         [\<lparr>tm_team_id = 1, tm_user_id = 1, tm_role = ''LEADER''\<rparr>,
          \<lparr>tm_team_id = 1, tm_user_id = 2, tm_role = ''MEMBER''\<rparr>,
          \<lparr>tm_team_id = 1, tm_user_id = 3, tm_role = ''MEMBER''\<rparr>],
       meetings = [sample_meeting],
       notifications = [],
       classes = [\<lparr>ac_class_id = 10, lecturer_id = 7\<rparr>, \<lparr>ac_class_id = 20, lecturer_id = 8\<rparr>],
       milestones = [sample_milestone],
       checkpoints = [] \<rparr>"

definition leader :: User where "leader = \<lparr>user_id = 1, role_id = 5\<rparr>"
definition student :: User where "student = \<lparr>user_id = 2, role_id = 5\<rparr>"
definition admin_member :: User where "admin_member = \<lparr>user_id = 3, role_id = 1\<rparr>"
definition admin_outsider :: User where "admin_outsider = \<lparr>user_id = 9, role_id = 1\<rparr>"
definition lecturer :: User where "lecturer = \<lparr>user_id = 7, role_id = 4\<rparr>"
definition other_lecturer :: User where "other_lecturer = \<lparr>user_id = 8, role_id = 4\<rparr>"

definition no_change :: MeetingUpdate where
  "no_change = \<lparr>mu_title = None, mu_start_time = None, mu_end_time = None, mu_meeting_link = None\<rparr>"

definition end_before_start :: MeetingUpdate where
  \<comment> \<open>moves the end of the sample meeting before its start\<close>
  "end_before_start = no_change\<lparr>mu_end_time := Some (Aware 400)\<rparr>"

definition end_at_start :: MeetingUpdate where
  \<comment> \<open>moves the end of the sample meeting onto its start\<close>
  "end_at_start = no_change\<lparr>mu_end_time := Some (Aware 1000)\<rparr>"

definition end_after_start :: MeetingUpdate where
  \<comment> \<open>moves the end of the sample meeting one microsecond after its start\<close>
  "end_after_start = no_change\<lparr>mu_end_time := Some (Aware 1001)\<rparr>"

definition naive_end :: MeetingUpdate where
  \<comment> \<open>an end without time zone, for a meeting stored with aware times\<close>
  "naive_end = no_change\<lparr>mu_end_time := Some (Naive 400)\<rparr>"

definition sample_meeting_create :: MeetingCreate where
  \<comment> \<open>starts one hour and ends two hours after instant 0, no link supplied\<close>
  "sample_meeting_create =
     \<lparr> mc_team_id = 1, mc_title = ''Demo'', mc_start_time = Aware 3600000000,
       mc_end_time = Aware 7200000000, mc_meeting_link = None \<rparr>"

definition reassigned_db :: db where
  \<comment> \<open>the sample store after class 10 has passed from user 7 to user 8\<close>
  "reassigned_db = sample_db\<lparr>classes := [\<lparr>ac_class_id = 10, lecturer_id = 8\<rparr>]\<rparr>"

definition fresh_db :: db where
  \<comment> \<open>the sample store before any milestone was created\<close>
  "fresh_db = sample_db\<lparr>milestones := []\<rparr>"

definition checkpointed_db :: db where
  \<comment> \<open>the sample store with two checkpoints under milestone 1, of teams 3 and 1\<close>
  "checkpointed_db =
     sample_db\<lparr>checkpoints :=
       [\<lparr>checkpoint_id = 2, cp_milestone_id = 1, cp_team_id = 3,
          cp_title = Some ''Draft'', cp_status = Some ''pending''\<rparr>,
        \<lparr>checkpoint_id = 1, cp_milestone_id = 1, cp_team_id = 1,
          cp_title = Some ''Draft'', cp_status = Some ''completed''\<rparr>]\<rparr>"

definition retitle :: MilestoneUpdate where
  "retitle = \<lparr>mlu_title = Some (Some ''Final report''), mlu_description = None,
              mlu_due_date = None, mlu_weight = None\<rparr>"

definition new_notifications :: "db \<Rightarrow> db \<Rightarrow> Notification list" where
  \<comment> \<open>the notification rows of the second store beyond those of the first\<close>
  "new_notifications d d' = drop (length (notifications d)) (notifications d')"

definition members_of :: "db \<Rightarrow> int \<Rightarrow> TeamMember list" where
  \<comment> \<open>the membership rows of a team\<close>
  "members_of d team_id = filter (\<lambda>m. tm_team_id m = team_id) (team_members d)"

definition sample_milestone_create :: MilestoneCreate where
  "sample_milestone_create =
     \<lparr> mlc_class_id = 10, mlc_title = ''Prototype'', mlc_description = None,
       mlc_due_date = Aware 9000, mlc_weight = 0.2 \<rparr>"

definition redate :: MilestoneUpdate where
  "redate = \<lparr>mlu_title = None, mlu_description = None,
             mlu_due_date = Some (Some (Aware 9000)), mlu_weight = None\<rparr>"

definition sample_checkpoint_create :: "int \<Rightarrow> CheckpointCreate" where
  "sample_checkpoint_create team_id =
     \<lparr> cc_milestone_id = 1, cc_team_id = team_id, cc_title = ''Draft'',
       cc_status = status_field None \<rparr>"

section \<open>Verified properties\<close>

lemmas ex_defs = sample_db_def sample_meeting_def sample_milestone_def leader_def student_def
  admin_member_def admin_outsider_def lecturer_def other_lecturer_def no_change_def

lemmas mt_defs = select_meeting_def scalar_def require_team_member_def require_team_exists_def
  may_mutate_def

lemmas out_defs = failed_with_def succeeded_def Forbidden_def ValidationError_def NotFound_def

lemma scalar_filter_SomeD:
  assumes "scalar (filter P rows) = Some r"
  shows "r \<in> set rows \<and> P r"
proof -
  from assms obtain rest where "filter P rows = r # rest"
    by (auto simp: scalar_def split: list.splits)
  then have "r \<in> set (filter P rows)" by simp
  then show ?thesis by simp
qed

lemma require_team_member_InrD:
  assumes "require_team_member d team_id uid = Inr tm"
  shows "tm \<in> set (team_members d) \<and> tm_team_id tm = team_id \<and> tm_user_id tm = uid"
proof -
  from assms have "scalar (filter (\<lambda>tm. tm_team_id tm = team_id \<and> tm_user_id tm = uid)
                     (team_members d)) = Some tm"
    by (auto simp: require_team_member_def split: option.splits)
  from scalar_filter_SomeD [OF this] show ?thesis by simp
qed

lemma sample_select_meeting: "select_meeting sample_db 1 = Some sample_meeting"
  by (simp add: ex_defs mt_defs)

lemma sample_membership:
  "require_team_member sample_db (m_team_id sample_meeting) (user_id leader)
     = Inr \<lparr>tm_team_id = 1, tm_user_id = 1, tm_role = ''LEADER''\<rparr>"
  "require_team_member sample_db (m_team_id sample_meeting) (user_id student)
     = Inr \<lparr>tm_team_id = 1, tm_user_id = 2, tm_role = ''MEMBER''\<rparr>"
  "require_team_member sample_db (m_team_id sample_meeting) (user_id admin_member)
     = Inr \<lparr>tm_team_id = 1, tm_user_id = 3, tm_role = ''MEMBER''\<rparr>"
  by (simp_all add: ex_defs mt_defs)

subsection \<open>Meetings\<close>

lemma end_not_after_start_raises:
  assumes "end_not_after_start meeting = Inl e"
  shows "e = TypeError"
proof -
  from assms obtain s t where "dt_le t s = Inl e"
    by (auto simp: end_not_after_start_def split: option.splits)
  then show ?thesis
    by (cases t; cases s) simp_all
qed

text \<open>
  C1, as amended. For every existing meeting, a caller with role 1 (admin) or 4 (lecturer)
  who is a member of the meeting's team is authorised to update and to cancel it: the
  update does not fail with Forbidden and the cancellation succeeds, whatever the role
  of the caller on the team and whoever organised the meeting.
\<close>

theorem privileged_member_may_mutate:
  assumes "select_meeting d mid = Some meeting"
    and "require_team_member d (m_team_id meeting) (user_id u) = Inr tm"
    and "role_id u = 1 \<or> role_id u = 4"
  shows "\<not> failed_with Forbidden (fst (update_meeting mid payload u d))
         \<and> fst (cancel_meeting mid u d) = Inr mid"
  using assms
  by (auto simp: update_meeting_def cancel_meeting_def may_mutate_def failed_with_def
        Forbidden_def Let_def split: sum.splits bool.splits
        dest!: end_not_after_start_raises)

theorem privileged_member_may_mutate_witness:
  "\<not> failed_with Forbidden (fst (update_meeting 1 no_change admin_member sample_db))
   \<and> fst (cancel_meeting 1 admin_member sample_db) = Inr 1"
proof -
  have c: "role_id admin_member = 1 \<or> role_id admin_member = 4"
    by (simp add: ex_defs)
  show ?thesis
    using privileged_member_may_mutate [OF sample_select_meeting sample_membership(3) c] .
qed

text \<open>
  C1 as stated fails: membership of the team is tested before the role. An administrator
  who belongs to no team is refused both the update and the cancellation of an existing
  meeting with Forbidden.
\<close>

theorem privileged_outsider_forbidden:
  "role_id admin_outsider = 1
   \<and> select_meeting sample_db 1 = Some sample_meeting
   \<and> failed_with Forbidden (fst (update_meeting 1 no_change admin_outsider sample_db))
   \<and> failed_with Forbidden (fst (cancel_meeting 1 admin_outsider sample_db))"
  by (simp add: ex_defs mt_defs out_defs update_meeting_def cancel_meeting_def)

lemma dt_le_same_kind:
  assumes "tz_aware a = tz_aware b"
  shows "dt_le a b = Inr (dt_value a \<le> dt_value b)"
  using assms by (cases a; cases b) simp_all

lemma dt_le_mixed:
  assumes "tz_aware a \<noteq> tz_aware b"
  shows "dt_le a b = Inl TypeError"
  using assms by (cases a; cases b) simp_all

text \<open>
  C3, as amended. Let the caller pass the authorisation of the update (a member of the
  team who is privileged, leader or organiser), and let the stored meeting with the
  supplied changes merged onto it have a start and an end that are both naive or both
  aware. If the end is not after the start, the update fails with a ValidationError and
  the store is left as it was; if the end is after the start, the update succeeds.
\<close>

theorem update_rejects_end_not_after_start:
  assumes "select_meeting d mid = Some meeting"
    and "require_team_member d (m_team_id meeting) (user_id u) = Inr tm"
    and "may_mutate u tm meeting"
    and "m_start_time (apply_update payload meeting) = Some s"
    and "m_end_time (apply_update payload meeting) = Some e"
    and "tz_aware e = tz_aware s"
  shows "(dt_value e \<le> dt_value s \<longrightarrow>
            failed_with ValidationError (fst (update_meeting mid payload u d))
            \<and> snd (update_meeting mid payload u d) = d)
         \<and> (dt_value e > dt_value s \<longrightarrow> succeeded (fst (update_meeting mid payload u d)))"
  using assms dt_le_same_kind [OF assms(6)]
  by (auto simp: update_meeting_def end_not_after_start_def out_defs Let_def)

lemma sample_may_mutate:
  "may_mutate leader \<lparr>tm_team_id = 1, tm_user_id = 1, tm_role = ''LEADER''\<rparr> sample_meeting"
  by (simp add: ex_defs mt_defs)

lemma sample_merged:
  "m_start_time (apply_update end_before_start sample_meeting) = Some (Aware 1000)"
  "m_end_time (apply_update end_before_start sample_meeting) = Some (Aware 400)"
  "m_start_time (apply_update end_at_start sample_meeting) = Some (Aware 1000)"
  "m_end_time (apply_update end_at_start sample_meeting) = Some (Aware 1000)"
  "m_start_time (apply_update end_after_start sample_meeting) = Some (Aware 1000)"
  "m_end_time (apply_update end_after_start sample_meeting) = Some (Aware 1001)"
  "m_start_time (apply_update naive_end sample_meeting) = Some (Aware 1000)"
  "m_end_time (apply_update naive_end sample_meeting) = Some (Naive 400)"
  by (simp_all add: ex_defs end_before_start_def end_at_start_def end_after_start_def
        naive_end_def apply_update_def)

theorem update_rejects_end_not_after_start_witness:
  "failed_with ValidationError (fst (update_meeting 1 end_before_start leader sample_db))
   \<and> snd (update_meeting 1 end_before_start leader sample_db) = sample_db
   \<and> failed_with ValidationError (fst (update_meeting 1 end_at_start leader sample_db))
   \<and> snd (update_meeting 1 end_at_start leader sample_db) = sample_db
   \<and> succeeded (fst (update_meeting 1 end_after_start leader sample_db))"
proof -
  have k: "tz_aware (Aware 400) = tz_aware (Aware 1000)"
    "tz_aware (Aware 1000) = tz_aware (Aware 1000)"
    "tz_aware (Aware 1001) = tz_aware (Aware 1000)"
    by simp_all
  show ?thesis
    using update_rejects_end_not_after_start
            [OF sample_select_meeting sample_membership(1) sample_may_mutate
                sample_merged(1) sample_merged(2) k(1)]
      update_rejects_end_not_after_start
            [OF sample_select_meeting sample_membership(1) sample_may_mutate
                sample_merged(3) sample_merged(4) k(2)]
      update_rejects_end_not_after_start
            [OF sample_select_meeting sample_membership(1) sample_may_mutate
                sample_merged(5) sample_merged(6) k(3)]
    by simp
qed

text \<open>
  C3 as stated fails. The authorisation comes before the validation: a plain member of
  the team who moves the end of the meeting before its start is refused with Forbidden,
  not with a ValidationError. The comparison itself raises when one of the merged times
  is naive and the other aware: the leader who supplies a naive end for a meeting stored
  with aware times gets a \<^verbatim>\<open>TypeError\<close>, not a ValidationError.
\<close>

theorem update_end_before_start_not_validation_error:
  "select_meeting sample_db 1 = Some sample_meeting
   \<and> m_start_time (apply_update end_before_start sample_meeting) = Some (Aware 1000)
   \<and> m_end_time (apply_update end_before_start sample_meeting) = Some (Aware 400)
   \<and> fst (update_meeting 1 end_before_start student sample_db)
       = Inl (HTTPException 403 ''Not allowed to update this meeting'')
   \<and> \<not> failed_with ValidationError (fst (update_meeting 1 end_before_start student sample_db))
   \<and> m_end_time (apply_update naive_end sample_meeting) = Some (Naive 400)
   \<and> fst (update_meeting 1 naive_end leader sample_db) = Inl TypeError
   \<and> \<not> failed_with ValidationError (fst (update_meeting 1 naive_end leader sample_db))"
  by (simp add: ex_defs mt_defs out_defs update_meeting_def end_not_after_start_def
        apply_update_def end_before_start_def naive_end_def)

text \<open>
  C5. For a meeting whose room identifier is set (not \<^verbatim>\<open>None\<close>, not empty), the join
  of a team member returns that identifier and writes nothing; a second join gives the
  same outcome and the same store.
\<close>

theorem join_idempotent:
  assumes "select_meeting d mid = Some meeting"
    and "truthy (link_url meeting)"
    and "require_team_member d (m_team_id meeting) (user_id u) = Inr tm"
  shows "fst (join_meeting mid u tok d)
           = Inr \<lparr>j_meeting_id = mid, j_team_id = m_team_id meeting, peer_room_id = link_url meeting\<rparr>
         \<and> snd (join_meeting mid u tok d) = d
         \<and> join_meeting mid u tok' (snd (join_meeting mid u tok d)) = join_meeting mid u tok d"
  using assms by (simp add: join_meeting_def)

theorem join_idempotent_witness:
  "fst (join_meeting 1 student ''t1'' sample_db)
     = Inr \<lparr>j_meeting_id = 1, j_team_id = 1, peer_room_id = Some ''room''\<rparr>
   \<and> snd (join_meeting 1 student ''t1'' sample_db) = sample_db
   \<and> join_meeting 1 student ''t2'' (snd (join_meeting 1 student ''t1'' sample_db))
       = join_meeting 1 student ''t1'' sample_db"
proof -
  have b: "truthy (link_url sample_meeting)"
    by (simp add: ex_defs truthy_def)
  have f: "m_team_id sample_meeting = 1" "link_url sample_meeting = Some ''room''"
    by (simp_all add: sample_meeting_def)
  show ?thesis
    using join_idempotent [OF sample_select_meeting b sample_membership(2), of "''t1''" "''t2''"]
    unfolding f .
qed

text \<open>
  C4. After a successful creation the store holds, beyond the notifications it had, one
  reminder for each membership row of the team, in the order of the rows, when the start
  time less 15 minutes is strictly after the clock reading, and none otherwise. Each
  reminder refers to the new meeting, and the organiser, being a member, is among the
  recipients.
\<close>

theorem create_meeting_reminders:
  assumes "create_meeting payload u tok new_id created now d = (Inr resp, d')"
  shows "notifications d' = notifications d @ new_notifications d d'
         \<and> (\<forall>n \<in> set (new_notifications d d').
               related_entity_type n = ''meeting'' \<and> related_entity_id n = r_meeting_id resp)
         \<and> (if dt_value (mc_start_time payload) - minutes 15 > now
            then map n_user_id (new_notifications d d')
                   = map tm_user_id (members_of d (mc_team_id payload))
                 \<and> user_id u \<in> set (map n_user_id (new_notifications d d'))
            else new_notifications d d' = [])"
proof -
  from assms obtain team tm where
    t: "require_team_exists d (mc_team_id payload) = Inr team" and
    m: "require_team_member d (mc_team_id payload) (user_id u) = Inr tm"
    by (auto simp: create_meeting_def split: sum.splits)
  from require_team_member_InrD [OF m]
  have mem: "user_id u \<in> set (map tm_user_id (members_of d (mc_team_id payload)))"
    by (force simp: members_of_def)
  define mk where "mk = (\<lambda>m::TeamMember. \<lparr> n_user_id = tm_user_id m,
                                n_title = ''Meeting reminder'',
                                n_message = (mc_title payload, mc_start_time payload),
                                notification_type = ''info'',
                                related_entity_type = ''meeting'',
                                related_entity_id = new_id \<rparr>)"
  have remind: "dt_value (naive_as_utc (minus_timedelta (mc_start_time payload) (minutes 15)))
                  = dt_value (mc_start_time payload) - minutes 15"
    by (cases "mc_start_time payload") simp_all
  define new where "new = (if dt_value (mc_start_time payload) - minutes 15 > now
                           then map mk (members_of d (mc_team_id payload)) else [])"
  from assms t m have resp: "r_meeting_id resp = new_id"
    by (auto simp: create_meeting_def to_response_def Let_def)
  from assms t m have "notifications d' = notifications d @ new"
    by (auto simp: create_meeting_def new_def mk_def members_of_def remind Let_def)
  then have nn: "new_notifications d d' = new" and app: "notifications d' = notifications d @ new"
    by (simp_all add: new_notifications_def)
  have users: "map n_user_id (map mk rows) = map tm_user_id rows" for rows
    by (simp add: mk_def comp_def)
  have refs: "\<forall>n \<in> set new. related_entity_type n = ''meeting'' \<and> related_entity_id n = new_id"
    by (auto simp: new_def mk_def)
  show ?thesis
  proof (cases "dt_value (mc_start_time payload) - minutes 15 > now")
    case True
    then have "new = map mk (members_of d (mc_team_id payload))" by (simp add: new_def)
    with users have "map n_user_id new = map tm_user_id (members_of d (mc_team_id payload))"
      by simp
    with True mem refs app show ?thesis by (simp add: nn resp)
  next
    case False
    then have "new = []" by (simp add: new_def)
    with False app show ?thesis by (simp add: nn resp)
  qed
qed

lemma sample_create_meeting:
  "create_meeting sample_meeting_create student ''tok'' 2 5 now sample_db
     = (Inr fst_resp,
        snd (create_meeting sample_meeting_create student ''tok'' 2 5 now sample_db))"
  if "fst (create_meeting sample_meeting_create student ''tok'' 2 5 now sample_db) = Inr fst_resp"
  using that by (metis prod.collapse)

lemma sample_create_meeting_succeeds:
  "fst (create_meeting sample_meeting_create student ''tok'' 2 5 now sample_db)
     = Inr \<lparr> r_meeting_id = 2, r_team_id = 1, r_title = Some ''Demo'',
             r_start_time = Some (Aware 3600000000), r_end_time = Some (Aware 7200000000),
             r_meeting_link = Some ''tok'', r_created_by = 2, r_created_at = Aware 5 \<rparr>"
  by (simp add: create_meeting_def sample_meeting_create_def ex_defs mt_defs to_response_def
        truthy_def Let_def)

theorem create_meeting_reminders_witness:
  "map n_user_id (new_notifications sample_db
      (snd (create_meeting sample_meeting_create student ''tok'' 2 5 2699999999 sample_db)))
     = [1, 2, 3]
   \<and> new_notifications sample_db
      (snd (create_meeting sample_meeting_create student ''tok'' 2 5 2700000000 sample_db)) = []"
proof -
  have m: "map tm_user_id (members_of sample_db (mc_team_id sample_meeting_create)) = [1, 2, 3]"
    by (simp add: members_of_def sample_meeting_create_def sample_db_def)
  have early: "dt_value (mc_start_time sample_meeting_create) - minutes 15 > 2699999999"
    and late: "\<not> dt_value (mc_start_time sample_meeting_create) - minutes 15 > 2700000000"
    by (simp_all add: sample_meeting_create_def minutes_def)
  show ?thesis
    using create_meeting_reminders [OF sample_create_meeting [OF sample_create_meeting_succeeds],
            of 2699999999]
      create_meeting_reminders [OF sample_create_meeting [OF sample_create_meeting_succeeds],
            of 2700000000]
      m early late
    by simp
qed

lemma filter_fresh_id:
  assumes "new_id \<notin> set (map meeting_id rows)"
  shows "filter (\<lambda>m. meeting_id m = new_id) rows = []"
  using assms by (induction rows) auto

lemma apply_update_keeps_room:
  assumes "truthy (link_url meeting)" and "mu_meeting_link payload \<noteq> Some []"
  shows "truthy (link_url (apply_update payload meeting))"
  using assms by (auto simp: apply_update_def truthy_def Let_def split: option.splits)

text \<open>
  C9. A successful creation stores a room identifier that is set: the supplied link when
  it is a non-empty string, the generated token otherwise (the token of
  \<^verbatim>\<open>secrets.token_urlsafe(10)\<close> is never empty). The identifier the store assigned
  being new, a join of the created meeting finds that row with its link set, so it
  writes nothing, whoever calls it and whatever token it would have drawn.
\<close>

theorem created_meeting_has_room:
  assumes "tok \<noteq> []"
    and "create_meeting payload u tok new_id created now d = (Inr resp, d')"
    and "new_id \<notin> set (map meeting_id (meetings d))"
  shows "truthy (r_meeting_link resp)
         \<and> r_meeting_link resp
             = (if truthy (mc_meeting_link payload) then mc_meeting_link payload else Some tok)
         \<and> (\<exists>meeting. select_meeting d' (r_meeting_id resp) = Some meeting
                \<and> link_url meeting = r_meeting_link resp)
         \<and> snd (join_meeting (r_meeting_id resp) u' tok' d') = d'
         \<and> fst (join_meeting (r_meeting_id resp) u tok' d')
             = Inr \<lparr>j_meeting_id = r_meeting_id resp, j_team_id = mc_team_id payload,
                    peer_room_id = r_meeting_link resp\<rparr>"
proof -
  from assms(2) obtain team tm where
    t: "require_team_exists d (mc_team_id payload) = Inr team" and
    m: "require_team_member d (mc_team_id payload) (user_id u) = Inr tm"
    by (auto simp: create_meeting_def split: sum.splits)
  define link where
    "link = (if truthy (mc_meeting_link payload) then mc_meeting_link payload else Some tok)"
  define meeting where
    "meeting = \<lparr> meeting_id = new_id, m_team_id = mc_team_id payload,
                 m_title = Some (mc_title payload),
                 m_start_time = Some (mc_start_time payload),
                 m_end_time = Some (mc_end_time payload),
                 link_url = link, organizer_id = user_id u, m_created_at = Aware created \<rparr>"
  from assms(2) t m have resp: "resp = to_response meeting"
    and ms: "meetings d' = meetings d @ [meeting]"
    and tms: "team_members d' = team_members d"
    by (auto simp: create_meeting_def meeting_def link_def Let_def)
  have set: "truthy link"
    using assms(1) by (simp add: link_def truthy_def)
  have sel: "select_meeting d' new_id = Some meeting"
    using filter_fresh_id [OF assms(3)]
    by (simp add: select_meeting_def ms scalar_def meeting_def)
  have rid: "r_meeting_id resp = new_id" and rl: "r_meeting_link resp = link"
    by (simp_all add: resp to_response_def meeting_def)
  have lm: "link_url meeting = link" and tm': "m_team_id meeting = mc_team_id payload"
    by (simp_all add: meeting_def)
  have j1: "snd (join_meeting new_id u' tok' d') = d'"
    using sel set lm by (simp add: join_meeting_def split: sum.splits)
  have m': "require_team_member d' (mc_team_id payload) (user_id u) = Inr tm"
    using m by (simp add: require_team_member_def tms)
  have j2: "fst (join_meeting new_id u tok' d')
              = Inr \<lparr>j_meeting_id = new_id, j_team_id = mc_team_id payload, peer_room_id = link\<rparr>"
    using sel set lm tm' m' by (simp add: join_meeting_def)
  show ?thesis
    using set sel j1 j2 lm by (simp add: rid rl) (simp add: link_def)
qed

theorem created_meeting_has_room_witness:
  "truthy (Some ''tok'')
   \<and> snd (join_meeting 2 leader ''other''
            (snd (create_meeting sample_meeting_create student ''tok'' 2 5 6 sample_db)))
       = snd (create_meeting sample_meeting_create student ''tok'' 2 5 6 sample_db)
   \<and> fst (join_meeting 2 student ''other''
            (snd (create_meeting sample_meeting_create student ''tok'' 2 5 6 sample_db)))
       = Inr \<lparr>j_meeting_id = 2, j_team_id = 1, peer_room_id = Some ''tok''\<rparr>"
proof -
  have a: "''tok'' \<noteq> []" by simp
  have c: "2 \<notin> set (map meeting_id (meetings sample_db))"
    by (simp add: ex_defs)
  have f: "mc_team_id sample_meeting_create = 1"
    by (simp add: sample_meeting_create_def)
  show ?thesis
    using created_meeting_has_room
            [OF a sample_create_meeting [where now = 6, OF sample_create_meeting_succeeds] c,
             where u' = leader and tok' = "''other''"]
    by (simp add: f truthy_def)
qed

subsection \<open>Milestones and checkpoints\<close>

text \<open>
  C6. For an existing milestone, a caller other than its creator is refused the update
  and the deletion with Forbidden and the store is left as it was, whatever the role of
  the caller and whoever teaches the class now; an update or a deletion that succeeds
  was requested by the creator.
\<close>

theorem milestone_creator_only:
  assumes "select_milestone d mid = Inr (Some milestone)"
  shows "(user_id u \<noteq> created_by milestone \<longrightarrow>
            failed_with Forbidden (fst (update_milestone mid upd u now d))
            \<and> snd (update_milestone mid upd u now d) = d
            \<and> failed_with Forbidden (fst (delete_milestone mid u d))
            \<and> snd (delete_milestone mid u d) = d)
         \<and> (succeeded (fst (update_milestone mid upd u now d)) \<longrightarrow> user_id u = created_by milestone)
         \<and> (succeeded (fst (delete_milestone mid u d)) \<longrightarrow> user_id u = created_by milestone)"
  using assms
  by (auto simp: update_milestone_def delete_milestone_def out_defs)

theorem milestone_creator_only_witness:
  "role_id other_lecturer = 4
   \<and> academic_class_of reassigned_db sample_milestone
       = Some \<lparr>ac_class_id = 10, lecturer_id = user_id other_lecturer\<rparr>
   \<and> failed_with Forbidden (fst (update_milestone 1 retitle other_lecturer 100 reassigned_db))
   \<and> snd (update_milestone 1 retitle other_lecturer 100 reassigned_db) = reassigned_db
   \<and> failed_with Forbidden (fst (delete_milestone 1 other_lecturer reassigned_db))
   \<and> snd (delete_milestone 1 other_lecturer reassigned_db) = reassigned_db
   \<and> succeeded (fst (update_milestone 1 retitle lecturer 100 reassigned_db))
   \<and> succeeded (fst (delete_milestone 1 lecturer reassigned_db))"
proof -
  have a: "select_milestone reassigned_db 1 = Inr (Some sample_milestone)"
    by (simp add: reassigned_db_def ex_defs select_milestone_def scalar_one_or_none_def)
  have b: "user_id other_lecturer \<noteq> created_by sample_milestone"
    by (simp add: ex_defs)
  have c: "role_id other_lecturer = 4"
    by (simp add: ex_defs)
  have e: "academic_class_of reassigned_db sample_milestone
             = Some \<lparr>ac_class_id = 10, lecturer_id = user_id other_lecturer\<rparr>"
    by (simp add: reassigned_db_def ex_defs academic_class_of_def scalar_def)
  have f: "succeeded (fst (update_milestone 1 retitle lecturer 100 reassigned_db))"
    by (simp add: a update_milestone_def retitle_def succeeded_def sample_milestone_def
          lecturer_def Let_def)
  have g: "succeeded (fst (delete_milestone 1 lecturer reassigned_db))"
    by (simp add: a delete_milestone_def succeeded_def sample_milestone_def lecturer_def)
  show ?thesis
    using milestone_creator_only [OF a, of other_lecturer retitle 100] b c e f g by blast
qed

lemma sample_select_milestone: "select_milestone sample_db 1 = Inr (Some sample_milestone)"
  by (simp add: ex_defs select_milestone_def scalar_one_or_none_def)

text \<open>
  C7. Let the class lecturer create a checkpoint under an existing milestone for a team
  that exists. If the class of the team differs from the class of the milestone, the
  creation fails with a ValidationError and the store is left as it was. If the team is
  of that class, the identifiers of path and body agree and the request supplies no
  status (the field is absent, or \<^verbatim>\<open>null\<close>), a checkpoint of status \<^verbatim>\<open>pending\<close>
  is appended to the store.
\<close>

theorem checkpoint_team_class_and_default_status:
  assumes "select_milestone d mid = Inr (Some milestone)"
    and "academic_class_of d milestone = Some academic_class"
    and "lecturer_id academic_class = user_id u"
    and "select_team d (cc_team_id checkpoint_data) = Inr (Some team)"
  shows "(t_class_id team \<noteq> ms_class_id milestone \<longrightarrow>
            failed_with ValidationError (fst (create_checkpoint mid checkpoint_data u new_id d))
            \<and> snd (create_checkpoint mid checkpoint_data u new_id d) = d)
         \<and> (t_class_id team = ms_class_id milestone
              \<and> cc_milestone_id checkpoint_data = mid
              \<and> (cc_status checkpoint_data = status_field None
                   \<or> cc_status checkpoint_data = status_field (Some None)) \<longrightarrow>
            (\<exists>cp. create_checkpoint mid checkpoint_data u new_id d
                     = (Inr cp, d\<lparr>checkpoints := checkpoints d @ [cp]\<rparr>)
                   \<and> cp_status cp = Some ''pending''
                   \<and> cp_milestone_id cp = mid
                   \<and> cp_team_id cp = cc_team_id checkpoint_data))"
  using assms
  by (auto simp: create_checkpoint_def status_field_def truthy_def out_defs Let_def)

theorem checkpoint_team_class_and_default_status_witness:
  "failed_with ValidationError
     (fst (create_checkpoint 1 (sample_checkpoint_create 2) lecturer 1 sample_db))
   \<and> snd (create_checkpoint 1 (sample_checkpoint_create 2) lecturer 1 sample_db) = sample_db
   \<and> (\<exists>cp. create_checkpoint 1 (sample_checkpoint_create 1) lecturer 1 sample_db
              = (Inr cp, sample_db\<lparr>checkpoints := checkpoints sample_db @ [cp]\<rparr>)
            \<and> cp_status cp = Some ''pending''
            \<and> cp_milestone_id cp = 1
            \<and> cp_team_id cp = 1)"
proof -
  have b: "academic_class_of sample_db sample_milestone = Some \<lparr>ac_class_id = 10, lecturer_id = 7\<rparr>"
    by (simp add: ex_defs academic_class_of_def scalar_def)
  have c: "lecturer_id \<lparr>ac_class_id = 10, lecturer_id = 7\<rparr> = user_id lecturer"
    by (simp add: ex_defs)
  have t1: "select_team sample_db (cc_team_id (sample_checkpoint_create 1))
              = Inr (Some \<lparr>t_team_id = 1, t_class_id = 10\<rparr>)"
    and t2: "select_team sample_db (cc_team_id (sample_checkpoint_create 2))
              = Inr (Some \<lparr>t_team_id = 2, t_class_id = 20\<rparr>)"
    by (simp_all add: ex_defs select_team_def scalar_one_or_none_def sample_checkpoint_create_def)
  have f: "t_class_id \<lparr>t_team_id = 2, t_class_id = 20\<rparr> \<noteq> ms_class_id sample_milestone"
    "t_class_id \<lparr>t_team_id = 1, t_class_id = 10\<rparr> = ms_class_id sample_milestone"
    "cc_milestone_id (sample_checkpoint_create 1) = 1"
    "cc_status (sample_checkpoint_create 1) = status_field None"
    "cc_team_id (sample_checkpoint_create 1) = 1"
    by (simp_all add: ex_defs sample_checkpoint_create_def)
  show ?thesis
    using checkpoint_team_class_and_default_status [OF sample_select_milestone b c t2, of 1]
      checkpoint_team_class_and_default_status [OF sample_select_milestone b c t1, of 1]
      f
    by simp
qed

lemma fresh_select_class:
  "select_class fresh_db (mlc_class_id sample_milestone_create)
     = Inr (Some \<lparr>ac_class_id = 10, lecturer_id = 7\<rparr>)"
  by (simp add: fresh_db_def ex_defs select_class_def scalar_one_or_none_def
        sample_milestone_create_def)

lemma filter_saved_rows:
  assumes "P saved"
  shows "filter P (map (\<lambda>r. if P r then saved else r) rows)
           = map (\<lambda>r. saved) (filter P rows)"
  using assms by (induction rows) auto

lemma scalar_one_or_none_SomeD:
  assumes "scalar_one_or_none rows = Inr (Some r)"
  shows "rows = [r]"
  using assms by (auto simp: scalar_one_or_none_def split: list.splits)

lemma select_saved_milestone:
  assumes "select_milestone d mid = Inr (Some milestone)"
    and "milestone_id saved = milestone_id milestone"
  shows "select_milestone (save_milestone saved d) mid = Inr (Some saved)"
proof -
  from scalar_one_or_none_SomeD [OF assms(1) [unfolded select_milestone_def]]
  have rows: "filter (\<lambda>m. milestone_id m = mid) (milestones d) = [milestone]" .
  then have "milestone \<in> set (filter (\<lambda>m. milestone_id m = mid) (milestones d))"
    by simp
  then have mid: "milestone_id saved = mid"
    using assms(2) by simp
  have "filter (\<lambda>m. milestone_id m = mid)
          (map (\<lambda>r. if milestone_id r = mid then saved else r) (milestones d)) = [saved]"
    using filter_saved_rows [of "\<lambda>m. milestone_id m = mid" saved "milestones d"] mid rows
    by simp
  then show ?thesis
    by (simp add: select_milestone_def save_milestone_def mid scalar_one_or_none_def)
qed

lemma setattrs_milestone_id: "milestone_id (setattrs upd milestone) = milestone_id milestone"
  by (simp add: setattrs_def Let_def split: option.splits)

text \<open>
  C8. A milestone creation by the lecturer of the class fails with a ValidationError and
  leaves the store as it was when the due date is not after the clock reading, and with
  a due date strictly after it succeeds and appends a milestone of that due date. A
  milestone update by the creator that sets the due date to a value fails in the same
  way when that value is not after the clock reading, and with a value strictly after it
  succeeds and saves the milestone with that due date, which is then the one stored
  under its identifier.
\<close>

theorem due_date_strictly_future:
  "(select_class d (mlc_class_id milestone_data) = Inr (Some academic_class)
      \<and> lecturer_id academic_class = user_id lect \<longrightarrow>
        (dt_value (mlc_due_date milestone_data) \<le> now \<longrightarrow>
           failed_with ValidationError
             (fst (create_milestone milestone_data lect dflt new_id now d))
           \<and> snd (create_milestone milestone_data lect dflt new_id now d) = d)
        \<and> (dt_value (mlc_due_date milestone_data) > now \<longrightarrow>
           (\<exists>m. create_milestone milestone_data lect dflt new_id now d
                   = (Inr m, d\<lparr>milestones := milestones d @ [m]\<rparr>)
                 \<and> ms_due_date m = mlc_due_date milestone_data)))
   \<and> (select_milestone d mid = Inr (Some milestone)
      \<and> created_by milestone = user_id creator
      \<and> mlu_due_date upd = Some (Some due) \<longrightarrow>
        (dt_value due \<le> now \<longrightarrow>
           failed_with ValidationError (fst (update_milestone mid upd creator now d))
           \<and> snd (update_milestone mid upd creator now d) = d)
        \<and> (dt_value due > now \<longrightarrow>
           (\<exists>m. update_milestone mid upd creator now d = (Inr m, save_milestone m d)
                 \<and> ms_due_date m = due
                 \<and> select_milestone (snd (update_milestone mid upd creator now d)) mid
                     = Inr (Some m))))"
proof -
  have creation:
    "(dt_value (mlc_due_date milestone_data) \<le> now \<longrightarrow>
        failed_with ValidationError
          (fst (create_milestone milestone_data lect dflt new_id now d))
        \<and> snd (create_milestone milestone_data lect dflt new_id now d) = d)
     \<and> (dt_value (mlc_due_date milestone_data) > now \<longrightarrow>
        (\<exists>m. create_milestone milestone_data lect dflt new_id now d
                = (Inr m, d\<lparr>milestones := milestones d @ [m]\<rparr>)
              \<and> ms_due_date m = mlc_due_date milestone_data))"
    if "select_class d (mlc_class_id milestone_data) = Inr (Some academic_class)"
      and "lecturer_id academic_class = user_id lect"
    using that by (auto simp: create_milestone_def out_defs Let_def)
  have late:
    "failed_with ValidationError (fst (update_milestone mid upd creator now d))
     \<and> snd (update_milestone mid upd creator now d) = d"
    if "select_milestone d mid = Inr (Some milestone)"
      and "created_by milestone = user_id creator"
      and "mlu_due_date upd = Some (Some due)"
      and "dt_value due \<le> now"
    using that by (simp add: update_milestone_def out_defs)
  have future:
    "\<exists>m. update_milestone mid upd creator now d = (Inr m, save_milestone m d)
          \<and> ms_due_date m = due
          \<and> select_milestone (snd (update_milestone mid upd creator now d)) mid
              = Inr (Some m)"
    if sel: "select_milestone d mid = Inr (Some milestone)"
      and "created_by milestone = user_id creator"
      and "mlu_due_date upd = Some (Some due)"
      and "dt_value due > now"
  proof -
    from that have
      "update_milestone mid upd creator now d
         = (Inr (setattrs upd milestone), save_milestone (setattrs upd milestone) d)"
      and "ms_due_date (setattrs upd milestone) = due"
      by (simp_all add: update_milestone_def setattrs_def Let_def split: option.splits)
    with select_saved_milestone [OF sel setattrs_milestone_id, of upd]
    show ?thesis by simp
  qed
  from creation late future show ?thesis by blast
qed

theorem due_date_strictly_future_witness:
  "milestones fresh_db = []
   \<and> failed_with ValidationError
       (fst (create_milestone sample_milestone_create lecturer None 1 9000 fresh_db))
   \<and> snd (create_milestone sample_milestone_create lecturer None 1 9000 fresh_db) = fresh_db
   \<and> (\<exists>m. create_milestone sample_milestone_create lecturer None 1 8999 fresh_db
             = (Inr m, fresh_db\<lparr>milestones := milestones fresh_db @ [m]\<rparr>)
           \<and> ms_due_date m = Aware 9000)
   \<and> failed_with ValidationError (fst (update_milestone 1 redate lecturer 9000 sample_db))
   \<and> snd (update_milestone 1 redate lecturer 9000 sample_db) = sample_db
   \<and> (\<exists>m. update_milestone 1 redate lecturer 8999 sample_db = (Inr m, save_milestone m sample_db)
           \<and> ms_due_date m = Aware 9000
           \<and> select_milestone (snd (update_milestone 1 redate lecturer 8999 sample_db)) 1
               = Inr (Some m))"
proof -
  have b: "lecturer_id \<lparr>ac_class_id = 10, lecturer_id = 7\<rparr> = user_id lecturer"
    by (simp add: ex_defs)
  have c: "created_by sample_milestone = user_id lecturer"
    by (simp add: ex_defs)
  have e: "mlu_due_date redate = Some (Some (Aware 9000))"
    by (simp add: redate_def)
  have f: "mlc_due_date sample_milestone_create = Aware 9000"
    by (simp add: sample_milestone_create_def)
  have g: "milestones fresh_db = []"
    by (simp add: fresh_db_def)
  have create_at: ?thesis if
    "select_class fresh_db (mlc_class_id sample_milestone_create)
       = Inr (Some \<lparr>ac_class_id = 10, lecturer_id = 7\<rparr>)
     \<and> lecturer_id \<lparr>ac_class_id = 10, lecturer_id = 7\<rparr> = user_id lecturer"
    "select_milestone sample_db 1 = Inr (Some sample_milestone)
     \<and> created_by sample_milestone = user_id lecturer
     \<and> mlu_due_date redate = Some (Some (Aware 9000))"
    using that
      due_date_strictly_future
        [where d = fresh_db and milestone_data = sample_milestone_create
           and academic_class = "\<lparr>ac_class_id = 10, lecturer_id = 7\<rparr>" and lect = lecturer
           and now = 9000 and dflt = None and new_id = 1]
      due_date_strictly_future
        [where d = fresh_db and milestone_data = sample_milestone_create
           and academic_class = "\<lparr>ac_class_id = 10, lecturer_id = 7\<rparr>" and lect = lecturer
           and now = 8999 and dflt = None and new_id = 1]
      due_date_strictly_future
        [where d = sample_db and mid = 1 and milestone = sample_milestone
           and creator = lecturer and upd = redate and due = "Aware 9000" and now = 9000]
      due_date_strictly_future
        [where d = sample_db and mid = 1 and milestone = sample_milestone
           and creator = lecturer and upd = redate and due = "Aware 9000" and now = 8999]
      g
    by (simp add: f)
  show ?thesis
    using create_at fresh_select_class b sample_select_milestone c e by blast
qed

lemma append_each_list_entry:
  assumes "\<forall>m \<in> set rows. ms_title m \<noteq> None"
  shows "\<exists>rs. append_each (list_entry d) rows = Inr rs
              \<and> map lr_milestone_id rs = map milestone_id rows"
  using assms
proof (induction rows)
  case Nil
  then show ?case by simp
next
  case (Cons row rows)
  then obtain rs where rs: "append_each (list_entry d) rows = Inr rs"
    "map lr_milestone_id rs = map milestone_id rows"
    by auto
  from Cons.prems obtain title where "ms_title row = Some title"
    by auto
  then obtain v where "list_entry d row = Inr v" "lr_milestone_id v = milestone_id row"
    by (simp add: list_entry_def)
  with rs show ?case
    by simp
qed

lemma milestone_page_titles:
  assumes "\<forall>m \<in> set (milestones d). ms_title m \<noteq> None"
  shows "\<forall>m \<in> set (milestone_page class_id skip limit d). ms_title m \<noteq> None"
proof
  fix m assume "m \<in> set (milestone_page class_id skip limit d)"
  then have "m \<in> set (milestones d)"
    by (auto simp: milestone_page_def Let_def split: if_splits
          dest!: in_set_takeD in_set_dropD)
  with assms show "ms_title m \<noteq> None" by blast
qed

text \<open>
  C10. A class identifier 0 given to the milestone listing, and a team identifier 0 given
  to the checkpoint listing, are ignored as filters. The milestone listing with 0
  returns what it returns with no filter: the page, by skip and limit, of all the
  milestones of the store in the order of their due dates, one entry for each when their
  titles are set. The checkpoint listing with 0 returns what it returns with no filter:
  for an existing milestone, all its checkpoints in the order of their identifiers.
\<close>

theorem list_filters_ignore_zero:
  "list_milestones (Some 0) skip limit d = list_milestones None skip limit d
   \<and> milestone_page (Some 0) skip limit d
       = take limit (drop skip (sort_key (\<lambda>m. dt_value (ms_due_date m)) (milestones d)))
   \<and> ((\<forall>m \<in> set (milestones d). ms_title m \<noteq> None) \<longrightarrow>
        (\<exists>rs. list_milestones (Some 0) skip limit d = Inr rs
              \<and> map lr_milestone_id rs
                  = map milestone_id
                      (take limit (drop skip
                         (sort_key (\<lambda>m. dt_value (ms_due_date m)) (milestones d))))))
   \<and> list_checkpoints mid (Some 0) d = list_checkpoints mid None d
   \<and> (select_milestone d mid = Inr (Some milestone) \<longrightarrow>
        list_checkpoints mid (Some 0) d
          = Inr (sort_key checkpoint_id
                   (filter (\<lambda>c. cp_milestone_id c = mid) (checkpoints d))))"
proof -
  have page: "milestone_page (Some 0) skip limit d
                = take limit (drop skip (sort_key (\<lambda>m. dt_value (ms_due_date m)) (milestones d)))"
    and same: "milestone_page (Some 0) skip limit d = milestone_page None skip limit d"
    by (simp_all add: milestone_page_def truthy_id_def)
  have m1: "list_milestones (Some 0) skip limit d = list_milestones None skip limit d"
    by (simp add: list_milestones_def same)
  have m2: "\<exists>rs. list_milestones (Some 0) skip limit d = Inr rs
              \<and> map lr_milestone_id rs
                  = map milestone_id
                      (take limit (drop skip
                         (sort_key (\<lambda>m. dt_value (ms_due_date m)) (milestones d))))"
    if "\<forall>m \<in> set (milestones d). ms_title m \<noteq> None"
    using append_each_list_entry [OF milestone_page_titles [OF that, of "Some 0" skip limit], of d]
    by (simp add: list_milestones_def page)
  have c1: "list_checkpoints mid (Some 0) d = list_checkpoints mid None d"
    by (simp add: list_checkpoints_def truthy_id_def Let_def split: sum.splits option.splits)
  have c2: "list_checkpoints mid (Some 0) d
              = Inr (sort_key checkpoint_id
                       (filter (\<lambda>c. cp_milestone_id c = mid) (checkpoints d)))"
    if "select_milestone d mid = Inr (Some milestone)"
    using that by (simp add: list_checkpoints_def truthy_id_def Let_def)
  from page m1 m2 c1 c2 show ?thesis by blast
qed

theorem list_filters_ignore_zero_witness:
  "map lr_milestone_id (projr (list_milestones (Some 0) 0 100 checkpointed_db)) = [1]
   \<and> map checkpoint_count (projr (list_milestones (Some 0) 0 100 checkpointed_db)) = [2]
   \<and> list_milestones (Some 20) 0 100 checkpointed_db = Inr []
   \<and> map checkpoint_id (projr (list_checkpoints 1 (Some 0) checkpointed_db)) = [1, 2]
   \<and> map cp_team_id (projr (list_checkpoints 1 (Some 0) checkpointed_db)) = [1, 3]
   \<and> map checkpoint_id (projr (list_checkpoints 1 (Some 3) checkpointed_db)) = [2]"
proof -
  have a: "select_milestone checkpointed_db 1 = Inr (Some sample_milestone)"
    by (simp add: checkpointed_db_def ex_defs select_milestone_def scalar_one_or_none_def)
  have b: "\<forall>m \<in> set (milestones checkpointed_db). ms_title m \<noteq> None"
    by (simp add: checkpointed_db_def ex_defs)
  have cps: "checkpoints checkpointed_db
               = [\<lparr>checkpoint_id = 2, cp_milestone_id = 1, cp_team_id = 3,
                    cp_title = Some ''Draft'', cp_status = Some ''pending''\<rparr>,
                  \<lparr>checkpoint_id = 1, cp_milestone_id = 1, cp_team_id = 1,
                    cp_title = Some ''Draft'', cp_status = Some ''completed''\<rparr>]"
    and mss: "milestones checkpointed_db = [sample_milestone]"
    by (simp_all add: checkpointed_db_def sample_db_def)
  have c: "list_milestones (Some 20) 0 100 checkpointed_db = Inr []"
    by (simp add: list_milestones_def milestone_page_def truthy_id_def mss sample_milestone_def)
  have e: "map checkpoint_id (projr (list_checkpoints 1 (Some 3) checkpointed_db)) = [2]"
    by (simp add: list_checkpoints_def truthy_id_def a cps Let_def)
  have f: "map checkpoint_count (projr (list_milestones (Some 0) 0 100 checkpointed_db)) = [2]"
    by (simp add: list_milestones_def milestone_page_def truthy_id_def mss cps
          list_entry_def sample_milestone_def)
  have g: "map milestone_id
             (take 100 (drop 0 (sort_key (\<lambda>m. dt_value (ms_due_date m))
                                  (milestones checkpointed_db)))) = [1]"
    by (simp add: mss sample_milestone_def)
  have h: "sort_key checkpoint_id
             (filter (\<lambda>c. cp_milestone_id c = 1) (checkpoints checkpointed_db))
           = [\<lparr>checkpoint_id = 1, cp_milestone_id = 1, cp_team_id = 1,
                cp_title = Some ''Draft'', cp_status = Some ''completed''\<rparr>,
              \<lparr>checkpoint_id = 2, cp_milestone_id = 1, cp_team_id = 3,
                cp_title = Some ''Draft'', cp_status = Some ''pending''\<rparr>]"
    by (simp add: cps)
  note listing = list_filters_ignore_zero [of 0 100 checkpointed_db 1 sample_milestone]
  from listing b obtain rs where
    rs: "list_milestones (Some 0) 0 100 checkpointed_db = Inr rs" and
    ids: "map lr_milestone_id rs
            = map milestone_id
                (take 100 (drop 0 (sort_key (\<lambda>m. dt_value (ms_due_date m))
                                     (milestones checkpointed_db))))"
    by blast
  from listing a have
    cs: "list_checkpoints 1 (Some 0) checkpointed_db
           = Inr (sort_key checkpoint_id
                    (filter (\<lambda>c. cp_milestone_id c = 1) (checkpoints checkpointed_db)))"
    by blast
  have ids': "map lr_milestone_id rs = [1]"
    using ids unfolding g .
  show ?thesis
    using c e f ids' by (simp add: rs cs h)
qed

lemma update_milestone_sets_weight:
  assumes "select_milestone d mid = Inr (Some milestone)"
    and "created_by milestone = user_id u"
    and "mlu_due_date upd = None"
    and "mlu_weight upd = Some w"
  shows "\<exists>m. update_milestone mid upd u now d = (Inr m, save_milestone m d) \<and> ms_weight m = w"
  using assms by (simp add: update_milestone_def setattrs_def Let_def split: option.splits)

lemma create_milestone_ignores_weight:
  "create_milestone (milestone_data\<lparr>mlc_weight := w\<rparr>) u dflt new_id now d
     = create_milestone milestone_data u dflt new_id now d"
  by (simp add: create_milestone_def Let_def split: sum.splits option.splits)

text \<open>
  C2. An update by the creator that supplies a weight stores it
  (\<open>update_milestone_sets_weight\<close>). The creation does not do what the claim says:
  the row it builds takes no weight from the request, so two requests that differ in
  their weight alone give the same outcome and the same store
  (\<open>create_milestone_ignores_weight\<close>). At a request of weight 0.2 the new row holds
  the weight the column declares for a row built without one, whatever that is.
\<close>

theorem create_milestone_drops_weight:
  "mlc_weight sample_milestone_create = 0.2
   \<and> fst (create_milestone sample_milestone_create lecturer dflt 2 100 sample_db)
       = Inr \<lparr> milestone_id = 2, ms_class_id = 10, ms_title = Some ''Prototype'',
               ms_description = None, ms_due_date = Aware 9000, ms_weight = dflt,
               created_by = 7 \<rparr>"
  by (simp add: create_milestone_def sample_milestone_create_def ex_defs select_class_def
        scalar_one_or_none_def Let_def)

end
